theory Spec2Isabelle
  imports Main "HOL-Library.Word"
begin

section \<open>Data of \<^verbatim>\<open>backend/main.py\<close>\<close>

text \<open>
  The server has two handlers: \<^verbatim>\<open>transcribe_audio\<close> (one upload, one response) and
  \<^verbatim>\<open>websocket_endpoint\<close> (a loop over binary chunks). Both write temporary files,
  call collaborators outside the program (the \<^verbatim>\<open>ffmpeg\<close> process, the Whisper model, the
  socket) and print to the console. The embedding passes the file system explicitly and
  returns the list of effects a handler performed, in order.

  Python \<^verbatim>\<open>bytes\<close> are lists of 8-bit words. A Python \<^verbatim>\<open>str\<close> is a list of Unicode code
  points (the messages of the program are Korean, and \<^verbatim>\<open>str.strip\<close> looks at code
  points), file names are ASCII strings.
\<close>

type_synonym bytes = "8 word list"
type_synonym pystr = "nat list"
type_synonym path = string
type_synonym fs = "path \<rightharpoonup> bytes"

definition ascii :: "string \<Rightarrow> pystr" where
  "ascii s = map of_char s"

definition ascii_bytes :: "string \<Rightarrow> bytes" where
  "ascii_bytes s = map (\<lambda>c. of_nat (of_char c)) s"

text \<open>
  The two fixed messages of \<^verbatim>\<open>transcribe_audio\<close>, as code points: the payload of the
  early return after the existence check ("file save failed", in Korean), and the text
  of the \<^verbatim>\<open>RuntimeError\<close> raised on a non-zero exit status (\<^verbatim>\<open>FFmpeg\<close> followed by
  "conversion failed", in Korean).
\<close>

definition msg_save_failed :: pystr where
  "msg_save_failed = [54028, 51068, 32, 51200, 51109, 32, 49892, 54056]"

definition msg_ffmpeg_failed :: pystr where
  "msg_ffmpeg_failed = ascii ''FFmpeg '' @ [48320, 54872, 32, 49892, 54056]"

text \<open>A segment of the model's answer; the program reads its \<^verbatim>\<open>text\<close> field only.\<close>

record segment =
  seg_text :: pystr

text \<open>
  What \<^verbatim>\<open>subprocess.run\<close> gives back: it raises (the executable is missing), or the
  process completed with an exit status, its captured stderr, and the bytes it left at
  the output path, if any.
\<close>

datatype run_result =
    Run_Raises pystr
  | Completed int pystr "bytes option"

text \<open>Every \<^verbatim>\<open>print\<close> of the program, by the statement that prints and the data it shows.\<close>

datatype log_line =
    Debug_Saving path
  | Error_Save_Failed
  | Debug_Ffmpeg_Start path path
  | Ffmpeg_Error_Banner
  | Ffmpeg_Stderr pystr
  | Debug_Whisper_Run
  | Debug_Result pystr
  | Error_Processing pystr
  | Warn_Remove path
  | WS_Connected
  | WS_Received nat
  | WS_Too_Small
  | WS_Debug_Result pystr
  | WS_Error_Processing pystr
  | WS_Warn_Remove path
  | WS_Disconnected
  | WS_Exception pystr

datatype event =
    Print log_line
  | Run_Ffmpeg path path
  | Model_Transcribe path
  | Send_Text pystr

text \<open>
  The value a handler returns: \<^verbatim>\<open>{"transcription": text}\<close>, \<^verbatim>\<open>{"error": msg}\<close>, or the
  pair \<^verbatim>\<open>({"error": msg}, 500)\<close> of the \<^verbatim>\<open>except\<close> branch.
\<close>

datatype response =
    Transcription pystr
  | Error_Dict pystr
  | Error_Tuple pystr int

text \<open>How a \<^verbatim>\<open>try\<close> body ends: it returns, it reaches \<^verbatim>\<open>continue\<close>, it falls through, or
  it raises an exception \<^verbatim>\<open>e\<close>, kept as \<^verbatim>\<open>str(e)\<close>.\<close>

datatype 'a outcome =
    Returned 'a
  | Raised pystr

subsection \<open>Strings\<close>

text \<open>\<^verbatim>\<open>sep.join(xs)\<close>.\<close>

fun join :: "pystr \<Rightarrow> pystr list \<Rightarrow> pystr" where
  "join sep [] = []"
| "join sep [x] = x"
| "join sep (x # y # ys) = x @ sep @ join sep (y # ys)"

text \<open>The code points \<^verbatim>\<open>str.strip()\<close> removes (those with \<^verbatim>\<open>str.isspace\<close>).\<close>

definition isspace :: "nat \<Rightarrow> bool" where
  "isspace c \<longleftrightarrow>
     (9 \<le> c \<and> c \<le> 13) \<or> (28 \<le> c \<and> c \<le> 32) \<or> c = 133 \<or> c = 160 \<or> c = 5760 \<or>
     (8192 \<le> c \<and> c \<le> 8202) \<or> c = 8232 \<or> c = 8233 \<or> c = 8239 \<or> c = 8287 \<or> c = 12288"

definition strip :: "pystr \<Rightarrow> pystr" where
  "strip s = rev (dropWhile isspace (rev (dropWhile isspace s)))"

text \<open>\<^verbatim>\<open>needle in hay\<close> on strings.\<close>

fun contains :: "pystr \<Rightarrow> pystr \<Rightarrow> bool" where
  "contains [] needle = (needle = [])"
| "contains (c # cs) needle = (take (length needle) (c # cs) = needle \<or> contains cs needle)"

text \<open>\<^verbatim>\<open>s.replace(".raw", ".wav")\<close>: every occurrence, left to right, without overlap.\<close>

fun replace_raw_wav :: "string \<Rightarrow> string" where
  "replace_raw_wav [] = []"
| "replace_raw_wav (c # cs) =
     (if take 4 (c # cs) = ''.raw'' then ''.wav'' @ replace_raw_wav (drop 3 cs)
      else c # replace_raw_wav cs)"

subsection \<open>Samples and the WAV container\<close>

text \<open>
  \<^verbatim>\<open>np.frombuffer(data, dtype=np.int16)\<close> reads two bytes per sample (low byte first on
  the machines the server runs on) and raises \<^verbatim>\<open>ValueError\<close> when a byte is left over.
  \<^verbatim>\<open>tobytes\<close> writes the samples back in the same order.
\<close>

fun frombuffer_int16 :: "bytes \<Rightarrow> 16 word list option" where
  "frombuffer_int16 [] = Some []"
| "frombuffer_int16 [b] = None"
| "frombuffer_int16 (lo # hi # rest) =
     (case frombuffer_int16 rest of
        None \<Rightarrow> None
      | Some ws \<Rightarrow> Some (word_cat hi lo # ws))"

definition tobytes :: "16 word list \<Rightarrow> bytes" where
  "tobytes ws = concat (map (\<lambda>w. [ucast w, ucast (drop_bit 8 w)]) ws)"

definition msg_value_error :: pystr where
  "msg_value_error = ascii ''buffer size must be a multiple of element size''"

text \<open>\<^verbatim>\<open>struct.pack\<close> of an unsigned 16-bit and 32-bit field, little-endian.\<close>

definition le16 :: "nat \<Rightarrow> bytes" where
  "le16 n = [of_nat n, of_nat (n div 256)]"

definition le32 :: "nat \<Rightarrow> bytes" where
  "le32 n = [of_nat n, of_nat (n div 256), of_nat (n div 65536), of_nat (n div 16777216)]"

text \<open>
  The file the standard \<^verbatim>\<open>wave\<close> writer leaves after \<^verbatim>\<open>setnchannels\<close>, \<^verbatim>\<open>setsampwidth\<close>,
  \<^verbatim>\<open>setframerate\<close> and one \<^verbatim>\<open>writeframes(frames)\<close>: the RIFF header, the \<^verbatim>\<open>fmt\<close> chunk
  for PCM, and the \<^verbatim>\<open>data\<close> chunk, whose declared length is the number of bytes
  written. Lengths are taken to fit the 32-bit fields of the format.
\<close>

definition wave_header :: "nat \<Rightarrow> nat \<Rightarrow> nat \<Rightarrow> nat \<Rightarrow> bytes" where
  "wave_header nchannels sampwidth framerate datalength =
     ascii_bytes ''RIFF'' @ le32 (36 + datalength) @ ascii_bytes ''WAVE'' @
     ascii_bytes ''fmt '' @ le32 16 @ le16 1 @ le16 nchannels @ le32 framerate @
     le32 (nchannels * framerate * sampwidth) @ le16 (nchannels * sampwidth) @
     le16 (sampwidth * 8) @ ascii_bytes ''data'' @ le32 datalength"

definition wave_write :: "nat \<Rightarrow> nat \<Rightarrow> nat \<Rightarrow> bytes \<Rightarrow> bytes" where
  "wave_write nchannels sampwidth framerate frames =
     wave_header nchannels sampwidth framerate (length frames) @ frames"

text \<open>Reading the container back: the sample payload is what follows the header.\<close>

definition wave_payload :: "bytes \<Rightarrow> bytes" where
  "wave_payload file = drop 44 file"

section \<open>The environment of a handler\<close>

text \<open>
  What lies outside the program during one request, or during the processing of one
  chunk: the identifier \<^verbatim>\<open>uuid.uuid4().hex\<close> draws, whether opening a file for writing
  raises (and with which message), what reading the upload gives, what the transcoder
  does with the bytes of its input file, what the model does with what it finds at the
  path it is given (\<open>None\<close>: no file there), whether \<^verbatim>\<open>send_text\<close> raises, and whether
  \<^verbatim>\<open>os.remove\<close> raises. A sum has the raised exception's message on the left.
\<close>

record env =
  uuid_hex :: string
  open_error :: "path \<Rightarrow> pystr option"
  upload :: "pystr + bytes"
  ffmpeg :: "bytes \<Rightarrow> run_result"
  whisper :: "bytes option \<Rightarrow> pystr + segment list"
  send_error :: "pystr option"
  remove_fails :: "path \<Rightarrow> bool"

text \<open>\<^verbatim>\<open>os.path.getsize\<close> raises on a missing file.\<close>

definition msg_no_such_file :: pystr where
  "msg_no_such_file = ascii ''No such file or directory''"

definition getsize :: "fs \<Rightarrow> path \<Rightarrow> pystr + nat" where
  "getsize fs p = (case fs p of None \<Rightarrow> Inl msg_no_such_file | Some b \<Rightarrow> Inr (length b))"

text \<open>
  The \<^verbatim>\<open>finally\<close> blocks: each path that exists is removed; a removal that raises is
  caught by the bare \<^verbatim>\<open>except\<close>, which prints a warning and leaves the file.
\<close>

fun cleanup :: "(path \<Rightarrow> log_line) \<Rightarrow> (path \<Rightarrow> bool) \<Rightarrow> path list \<Rightarrow> fs \<Rightarrow> fs \<times> event list" where
  "cleanup warn fails [] fs = (fs, [])"
| "cleanup warn fails (p # ps) fs =
     (if fs p \<noteq> None then
        (if fails p then
           (case cleanup warn fails ps fs of (fs', ev) \<Rightarrow> (fs', Print (warn p) # ev))
         else cleanup warn fails ps (fs(p := None)))
      else cleanup warn fails ps fs)"

section \<open>The one-shot handler \<^verbatim>\<open>transcribe_audio\<close>\<close>

definition input_path_of :: "string \<Rightarrow> path" where
  "input_path_of file_id = ''temp_input_'' @ file_id @ ''.wav''"

definition audio_path_of :: "string \<Rightarrow> path" where
  "audio_path_of file_id = ''temp_processed_'' @ file_id @ ''.wav''"

text \<open>
  The \<^verbatim>\<open>try\<close> body (lines 43 to 69). \<^verbatim>\<open>open(input_path, "wb")\<close> creates the file before
  the upload is read, so a failing read leaves it empty. The existence check of line 48
  is the lookup of the saved file.
\<close>

definition transcribe_try :: "env \<Rightarrow> fs \<Rightarrow> response outcome \<times> fs \<times> event list" where
  "transcribe_try e fs =
     (let input_path = input_path_of (uuid_hex e);
          audio_path = audio_path_of (uuid_hex e);
          ev0 = [Print (Debug_Saving input_path)]
      in case open_error e input_path of
           Some err \<Rightarrow> (Raised err, fs, ev0)
         | None \<Rightarrow>
        (case upload e of
           Inl err \<Rightarrow> (Raised err, fs(input_path \<mapsto> []), ev0)
         | Inr content \<Rightarrow>
          (let fs1 = fs(input_path \<mapsto> content)
           in case fs1 input_path of
                None \<Rightarrow> (Returned (Error_Dict msg_save_failed), fs1, ev0 @ [Print Error_Save_Failed])
              | Some saved \<Rightarrow>
             (let ev1 = ev0 @ [Print (Debug_Ffmpeg_Start input_path audio_path),
                               Run_Ffmpeg input_path audio_path]
              in case ffmpeg e saved of
                   Run_Raises err \<Rightarrow> (Raised err, fs1, ev1)
                 | Completed returncode stderr out \<Rightarrow>
                  (let fs2 = (case out of None \<Rightarrow> fs1 | Some b \<Rightarrow> fs1(audio_path \<mapsto> b))
                   in if returncode \<noteq> 0 then
                        (Raised msg_ffmpeg_failed, fs2,
                         ev1 @ [Print Ffmpeg_Error_Banner, Print (Ffmpeg_Stderr stderr)])
                      else
                       (let ev2 = ev1 @ [Print Debug_Whisper_Run, Model_Transcribe audio_path]
                        in case whisper e (fs2 audio_path) of
                             Inl err \<Rightarrow> (Raised err, fs2, ev2)
                           | Inr segments \<Rightarrow>
                              (let text = join (ascii '' '') (map seg_text segments)
                               in (Returned (Transcription text), fs2,
                                   ev2 @ [Print (Debug_Result text)]))))))))"

text \<open>The whole handler: the body, the \<^verbatim>\<open>except Exception\<close> branch, the \<^verbatim>\<open>finally\<close> block.\<close>

definition transcribe_audio :: "env \<Rightarrow> fs \<Rightarrow> response \<times> fs \<times> event list" where
  "transcribe_audio e fs =
     (case transcribe_try e fs of
        (out, fs1, ev) \<Rightarrow>
          (let handled = (case out of
                            Returned r \<Rightarrow> (r, [])
                          | Raised err \<Rightarrow> (Error_Tuple err 500, [Print (Error_Processing err)]));
               fin = cleanup Warn_Remove (remove_fails e)
                       [input_path_of (uuid_hex e), audio_path_of (uuid_hex e)] fs1
           in (fst handled, fst fin, ev @ snd handled @ snd fin)))"

section \<open>The streaming handler \<^verbatim>\<open>websocket_endpoint\<close>\<close>

definition temp_file_of :: "string \<Rightarrow> path" where
  "temp_file_of hex = ''temp_ws_'' @ hex @ ''.raw''"

definition wav_file_of :: "string \<Rightarrow> path" where
  "wav_file_of hex = replace_raw_wav (temp_file_of hex)"

text \<open>Lines 100 and 101: one zero byte after a buffer of odd length.\<close>

definition pad_odd :: "bytes \<Rightarrow> bytes" where
  "pad_odd data = (if length data mod 2 \<noteq> 0 then data @ [0] else data)"

text \<open>
  Line 111: a file of fewer than 1000 bytes takes the \<^verbatim>\<open>continue\<close>; the gate accepts the
  sizes that do not.
\<close>

definition quality_gate :: "nat \<Rightarrow> bool" where
  "quality_gate nbytes \<longleftrightarrow> \<not> nbytes < 1000"

text \<open>Lines 100 to 109 without the file system: the bytes written to \<^verbatim>\<open>wav_file\<close>.\<close>

definition frame_assembler :: "bytes \<Rightarrow> bytes option" where
  "frame_assembler data =
     (case frombuffer_int16 (pad_odd data) of
        None \<Rightarrow> None
      | Some audio_data \<Rightarrow> Some (wave_write 1 2 16000 (tobytes audio_data)))"

text \<open>The inner \<^verbatim>\<open>try\<close> body (lines 94 to 120) for one received chunk.\<close>

definition ws_try :: "env \<Rightarrow> bytes \<Rightarrow> fs \<Rightarrow> unit outcome \<times> fs \<times> event list" where
  "ws_try e data fs =
     (let temp_file = temp_file_of (uuid_hex e);
          wav_file = wav_file_of (uuid_hex e)
      in case open_error e temp_file of
           Some err \<Rightarrow> (Raised err, fs, [])
         | None \<Rightarrow>
          (let fs1 = fs(temp_file \<mapsto> data);
               data' = pad_odd data
           in case frombuffer_int16 data' of
                None \<Rightarrow> (Raised msg_value_error, fs1, [])
              | Some audio_data \<Rightarrow>
               (case open_error e wav_file of
                  Some err \<Rightarrow> (Raised err, fs1, [])
                | None \<Rightarrow>
                 (let fs2 = fs1(wav_file \<mapsto> wave_write 1 2 16000 (tobytes audio_data))
                  in case getsize fs2 wav_file of
                       Inl err \<Rightarrow> (Raised err, fs2, [])
                     | Inr nbytes \<Rightarrow>
                        if \<not> quality_gate nbytes then (Returned (), fs2, [Print WS_Too_Small])
                        else
                         (case whisper e (fs2 wav_file) of
                            Inl err \<Rightarrow> (Raised err, fs2, [Model_Transcribe wav_file])
                          | Inr segments \<Rightarrow>
                             (let text = join (ascii '' '') (map seg_text segments);
                                  ev = [Model_Transcribe wav_file, Print (WS_Debug_Result text)]
                              in if strip text \<noteq> [] then
                                   (case send_error e of
                                      Some err \<Rightarrow> (Raised err, fs2, ev)
                                    | None \<Rightarrow> (Returned (), fs2, ev @ [Send_Text text]))
                                 else (Returned (), fs2, ev)))))))"

text \<open>
  One turn of the loop after the receive: the body, the inner \<^verbatim>\<open>except Exception\<close>
  (which prints and goes on), the \<^verbatim>\<open>finally\<close> block.
\<close>

definition process_chunk :: "env \<Rightarrow> bytes \<Rightarrow> fs \<Rightarrow> fs \<times> event list" where
  "process_chunk e data fs =
     (case ws_try e data fs of
        (out, fs1, ev) \<Rightarrow>
          (let handled = (case out of
                            Returned u \<Rightarrow> []
                          | Raised err \<Rightarrow> [Print (WS_Error_Processing err)]);
               fin = cleanup WS_Warn_Remove (remove_fails e)
                       [temp_file_of (uuid_hex e), wav_file_of (uuid_hex e)] fs1
           in (fst fin, ev @ handled @ snd fin)))"

text \<open>
  What \<^verbatim>\<open>await websocket.receive_bytes()\<close> gives: a chunk (with the environment its
  processing meets), the peer's disconnect, or another exception.
\<close>

datatype received =
    Chunk bytes env
  | Disconnect
  | Receive_Error pystr

datatype status = Awaiting_Chunk | Closed

text \<open>
  The \<^verbatim>\<open>while True\<close> loop, driven by what the socket delivers. The loop itself never
  ends; it is followed along a finite sequence of receive results. When the sequence is
  used up the handler is suspended in \<^verbatim>\<open>receive_bytes\<close>: status \<open>Awaiting_Chunk\<close>. After a
  disconnect or a receive error one of the outer \<^verbatim>\<open>except\<close> branches prints and the
  handler returns: status \<open>Closed\<close>.
\<close>

fun session_loop :: "received list \<Rightarrow> fs \<Rightarrow> status \<times> fs \<times> event list" where
  "session_loop [] fs = (Awaiting_Chunk, fs, [])"
| "session_loop (Disconnect # rest) fs = (Closed, fs, [Print WS_Disconnected])"
| "session_loop (Receive_Error err # rest) fs = (Closed, fs, [Print (WS_Exception err)])"
| "session_loop (Chunk data e # rest) fs =
     (case process_chunk e data fs of
        (fs1, ev1) \<Rightarrow>
          (case session_loop rest fs1 of
             (st, fs2, ev2) \<Rightarrow> (st, fs2, Print (WS_Received (length data)) # ev1 @ ev2)))"

text \<open>The handler, from the moment \<^verbatim>\<open>accept\<close> has returned.\<close>

definition websocket_endpoint :: "received list \<Rightarrow> fs \<Rightarrow> status \<times> fs \<times> event list" where
  "websocket_endpoint inputs fs =
     (case session_loop inputs fs of (st, fs', ev) \<Rightarrow> (st, fs', Print WS_Connected # ev))"

section \<open>Reading a run\<close>

text \<open>The texts sent to the peer, the model invocations and the transcoder invocations of a
  trace, in order, and the warnings of the \<^verbatim>\<open>finally\<close> blocks.\<close>

definition sent_texts :: "event list \<Rightarrow> pystr list" where
  "sent_texts ev = concat (map (\<lambda>x. case x of Send_Text t \<Rightarrow> [t] | _ \<Rightarrow> []) ev)"

definition model_calls :: "event list \<Rightarrow> path list" where
  "model_calls ev = concat (map (\<lambda>x. case x of Model_Transcribe p \<Rightarrow> [p] | _ \<Rightarrow> []) ev)"

definition ffmpeg_calls :: "event list \<Rightarrow> (path \<times> path) list" where
  "ffmpeg_calls ev = concat (map (\<lambda>x. case x of Run_Ffmpeg i out \<Rightarrow> [(i, out)] | _ \<Rightarrow> []) ev)"

fun is_warning :: "event \<Rightarrow> bool" where
  "is_warning (Print (Warn_Remove p)) = True"
| "is_warning (Print (WS_Warn_Remove p)) = True"
| "is_warning x = False"

text \<open>The environment in which no removal raises, everything else unchanged.\<close>

definition removals_succeed :: "env \<Rightarrow> env" where
  "removals_succeed e = e\<lparr>remove_fails := (\<lambda>p. False)\<rparr>"

text \<open>
  The words of the streaming properties. A chunk passes the quality gate when both of
  its files could be written and the gate accepts the size of the assembled file. The
  text it yields is the joined text of the segments the model returns for that file.
\<close>

definition passes_gate :: "env \<Rightarrow> bytes \<Rightarrow> bool" where
  "passes_gate e data \<longleftrightarrow>
     open_error e (temp_file_of (uuid_hex e)) = None \<and>
     open_error e (wav_file_of (uuid_hex e)) = None \<and>
     (case frame_assembler data of None \<Rightarrow> False | Some a \<Rightarrow> quality_gate (length a))"

definition model_text :: "env \<Rightarrow> bytes \<Rightarrow> pystr option" where
  "model_text e data =
     (case whisper e (frame_assembler data) of
        Inl err \<Rightarrow> None
      | Inr segments \<Rightarrow> Some (join (ascii '' '') (map seg_text segments)))"

definition to_chunk :: "bytes \<times> env \<Rightarrow> received" where
  "to_chunk c = Chunk (fst c) (snd c)"

definition is_receive_fault :: "received \<Rightarrow> bool" where
  "is_receive_fault r = (case r of Chunk d e \<Rightarrow> False | Disconnect \<Rightarrow> True | Receive_Error err \<Rightarrow> True)"

text \<open>
  The words of the one-shot property: the texts in the order given, each one after the
  first preceded by exactly one space (code point 32).
\<close>

definition joined_by_single_spaces :: "pystr list \<Rightarrow> pystr" where
  "joined_by_single_spaces ts =
     (case ts of [] \<Rightarrow> [] | t # rest \<Rightarrow> t @ concat (map (\<lambda>u. 32 # u) rest))"

section \<open>Example runs\<close>

definition fs0 :: fs where
  "fs0 = Map.empty"

definition hex0 :: string where
  "hex0 = ''9f1c2e7ab04d4c53a6e8d2b17f3c5a90''"

definition stderr0 :: pystr where
  "stderr0 = ascii ''Invalid data found when processing input''"

text \<open>Every collaborator succeeds; the model returns two segments.\<close>

definition env_ok :: env where
  "env_ok = \<lparr>uuid_hex = hex0, open_error = (\<lambda>p. None), upload = Inr [82, 73, 70, 70],
             ffmpeg = (\<lambda>b. Completed 0 [] (Some [1, 0, 2, 0])),
             whisper = (\<lambda>f. Inr [\<lparr>seg_text = ascii ''hello''\<rparr>, \<lparr>seg_text = ascii ''world''\<rparr>]),
             send_error = None, remove_fails = (\<lambda>p. False)\<rparr>"

text \<open>An empty upload, on which the transcoder exits with status 1.\<close>

definition env_empty_upload :: env where
  "env_empty_upload = env_ok\<lparr>upload := Inr [], ffmpeg := (\<lambda>b. Completed 1 stderr0 None)\<rparr>"

text \<open>A non-empty upload the transcoder rejects.\<close>

definition env_ffmpeg_fails :: env where
  "env_ffmpeg_fails = env_ok\<lparr>ffmpeg := (\<lambda>b. Completed 1 stderr0 None)\<rparr>"

text \<open>The model raises.\<close>

definition env_model_fails :: env where
  "env_model_fails = env_ok\<lparr>whisper := (\<lambda>f. Inl (ascii ''CUDA out of memory''))\<rparr>"

text \<open>Every removal raises.\<close>

definition env_remove_fails :: env where
  "env_remove_fails = env_ok\<lparr>remove_fails := (\<lambda>p. True)\<rparr>"

text \<open>The model returns one segment of blanks.\<close>

definition env_blank :: env where
  "env_blank = env_ok\<lparr>whisper := (\<lambda>f. Inr [\<lparr>seg_text = ascii ''  ''\<rparr>])\<rparr>"

text \<open>A chunk of 956 zero bytes, one of 954, and one of 3 bytes.\<close>

definition chunk_956 :: bytes where
  "chunk_956 = replicate 956 0"

definition chunk_954 :: bytes where
  "chunk_954 = replicate 954 0"

definition chunk_3 :: bytes where
  "chunk_3 = [1, 2, 3]"

section \<open>Facts about samples, the container and the cleanup\<close>

lemma word_cat_lo: "ucast (word_cat (hi::8 word) (lo::8 word) :: 16 word) = lo"
  by (rule bit_word_eqI) (auto simp: bit_simps)

lemma word_cat_hi: "ucast (drop_bit 8 (word_cat (hi::8 word) (lo::8 word) :: 16 word)) = hi"
  by (rule bit_word_eqI) (auto simp: bit_simps)

lemma frombuffer_None_iff: "frombuffer_int16 B = None \<longleftrightarrow> odd (length B)"
  by (induction B rule: frombuffer_int16.induct) (auto split: option.splits)

lemma tobytes_frombuffer: "frombuffer_int16 B = Some ws \<Longrightarrow> tobytes ws = B"
  by (induction B arbitrary: ws rule: frombuffer_int16.induct)
     (auto simp: tobytes_def word_cat_lo word_cat_hi split: option.splits)

lemma length_wave_header: "length (wave_header c w r n) = 44"
  by (simp add: wave_header_def ascii_bytes_def le32_def le16_def)

lemma even_length_pad_odd: "even (length (pad_odd B))"
  by (auto simp: pad_odd_def even_iff_mod_2_eq_zero mod_Suc)

lemma pad_odd_even: "pad_odd B = (if even (length B) then B else B @ [0])"
  by (simp add: pad_odd_def even_iff_mod_2_eq_zero)

lemma fst_cleanup_Cons:
  "fst (cleanup warn fails (p # ps) fs) =
     (if fs p \<noteq> None \<and> \<not> fails p then fst (cleanup warn fails ps (fs(p := None)))
      else fst (cleanup warn fails ps fs))"
  by (simp split: prod.splits)

lemma snd_cleanup_Cons:
  "snd (cleanup warn fails (p # ps) fs) =
     (if fs p \<noteq> None then
        (if fails p then Print (warn p) # snd (cleanup warn fails ps fs)
         else snd (cleanup warn fails ps (fs(p := None))))
      else snd (cleanup warn fails ps fs))"
  by (simp split: prod.splits)

lemma cleanup_None: "fs p = None \<Longrightarrow> fst (cleanup warn fails ps fs) p = None"
  by (induction ps arbitrary: fs) (simp_all add: fst_cleanup_Cons del: cleanup.simps(2))

lemma cleanup_removed:
  "\<forall>p\<in>set ps. \<not> fails p \<Longrightarrow> p \<in> set ps \<Longrightarrow> fst (cleanup warn fails ps fs) p = None"
proof (induction ps arbitrary: fs)
  case Nil
  then show ?case by simp
next
  case (Cons q ps)
  show ?case
  proof (cases "p = q")
    case True
    then show ?thesis using Cons.prems
      by (simp add: fst_cleanup_Cons cleanup_None del: cleanup.simps(2))
  next
    case False
    then show ?thesis using Cons
      by (simp add: fst_cleanup_Cons del: cleanup.simps(2))
  qed
qed

lemma cleanup_other: "p \<notin> set ps \<Longrightarrow> fst (cleanup warn fails ps fs) p = fs p"
  by (induction ps arbitrary: fs) (simp_all add: fst_cleanup_Cons del: cleanup.simps(2))

lemma cleanup_no_fail_events: "\<forall>p\<in>set ps. \<not> fails p \<Longrightarrow> snd (cleanup warn fails ps fs) = []"
  by (induction ps arbitrary: fs) (simp_all add: snd_cleanup_Cons del: cleanup.simps(2))


lemma frombuffer_pad_odd: "\<exists>ws. frombuffer_int16 (pad_odd d) = Some ws \<and> tobytes ws = pad_odd d"
proof -
  have "frombuffer_int16 (pad_odd d) \<noteq> None"
    by (simp add: frombuffer_None_iff even_length_pad_odd)
  then obtain ws where "frombuffer_int16 (pad_odd d) = Some ws" by blast
  then show ?thesis by (simp add: tobytes_frombuffer)
qed

lemma frame_assembler_eq: "frame_assembler d = Some (wave_write 1 2 16000 (pad_odd d))"
  using frombuffer_pad_odd [of d] by (auto simp: frame_assembler_def)

lemma length_wave_write: "length (wave_write c w r frames) = 44 + length frames"
  by (simp add: wave_write_def length_wave_header)

lemma ws_try_eq:
  "ws_try e d fs =
     (case open_error e (temp_file_of (uuid_hex e)) of
        Some err \<Rightarrow> (Raised err, fs, [])
      | None \<Rightarrow>
         (case open_error e (wav_file_of (uuid_hex e)) of
            Some err \<Rightarrow> (Raised err, fs(temp_file_of (uuid_hex e) \<mapsto> d), [])
          | None \<Rightarrow>
             (let art = wave_write 1 2 16000 (pad_odd d);
                  fs2 = fs(temp_file_of (uuid_hex e) \<mapsto> d, wav_file_of (uuid_hex e) \<mapsto> art)
              in if length (pad_odd d) < 956 then (Returned (), fs2, [Print WS_Too_Small])
                 else
                  (case whisper e (Some art) of
                     Inl err \<Rightarrow> (Raised err, fs2, [Model_Transcribe (wav_file_of (uuid_hex e))])
                   | Inr segments \<Rightarrow>
                      (let text = join (ascii '' '') (map seg_text segments);
                           ev = [Model_Transcribe (wav_file_of (uuid_hex e)), Print (WS_Debug_Result text)]
                       in if strip text \<noteq> [] then
                            (case send_error e of
                               Some err \<Rightarrow> (Raised err, fs2, ev)
                             | None \<Rightarrow> (Returned (), fs2, ev @ [Send_Text text]))
                          else (Returned (), fs2, ev))))))"
proof -
  obtain ws where ws: "frombuffer_int16 (pad_odd d) = Some ws" "tobytes ws = pad_odd d"
    using frombuffer_pad_odd by blast
  have gate: "quality_gate (44 + length (pad_odd d)) \<longleftrightarrow> \<not> length (pad_odd d) < 956"
    by (auto simp: quality_gate_def)
  show ?thesis
    by (simp add: ws_try_def ws getsize_def length_wave_write gate Let_def
        split: option.splits sum.splits)
qed


text \<open>For an identifier without a dot, as every \<^verbatim>\<open>uuid4().hex\<close> is, the replacement changes
  the extension only.\<close>

lemma replace_raw_wav_suffix:
  "CHR ''.'' \<notin> set xs \<Longrightarrow> replace_raw_wav (xs @ ''.raw'') = xs @ ''.wav''"
  by (induction xs) auto

lemma wav_file_of_hex:
  assumes "CHR ''.'' \<notin> set hex"
  shows "wav_file_of hex = ''temp_ws_'' @ hex @ ''.wav''"
proof -
  have "replace_raw_wav ((''temp_ws_'' @ hex) @ ''.raw'') = (''temp_ws_'' @ hex) @ ''.wav''"
    by (rule replace_raw_wav_suffix) (use assms in simp)
  then show ?thesis
    by (simp add: wav_file_of_def temp_file_of_def)
qed

text \<open>What the body leaves at \<^verbatim>\<open>wav_file\<close> is the frame assembler's file.\<close>

lemma ws_try_writes_artifact:
  assumes "open_error e (temp_file_of (uuid_hex e)) = None"
      and "open_error e (wav_file_of (uuid_hex e)) = None"
  shows "fst (snd (ws_try e d fs)) (wav_file_of (uuid_hex e)) = frame_assembler d"
  using assms
  by (simp add: ws_try_eq frame_assembler_eq Let_def split: sum.splits option.splits)

lemma trace_append [simp]:
  "sent_texts (a @ b) = sent_texts a @ sent_texts b"
  "model_calls (a @ b) = model_calls a @ model_calls b"
  "ffmpeg_calls (a @ b) = ffmpeg_calls a @ ffmpeg_calls b"
  by (simp_all add: sent_texts_def model_calls_def ffmpeg_calls_def)

lemma trace_Cons [simp]:
  "sent_texts (Print l # a) = sent_texts a"
  "sent_texts (Send_Text t # a) = t # sent_texts a"
  "sent_texts (Model_Transcribe p # a) = sent_texts a"
  "sent_texts (Run_Ffmpeg i out # a) = sent_texts a"
  "sent_texts [] = []"
  "model_calls (Print l # a) = model_calls a"
  "model_calls (Send_Text t # a) = model_calls a"
  "model_calls (Model_Transcribe p # a) = p # model_calls a"
  "model_calls (Run_Ffmpeg i out # a) = model_calls a"
  "model_calls [] = []"
  "ffmpeg_calls (Print l # a) = ffmpeg_calls a"
  "ffmpeg_calls (Send_Text t # a) = ffmpeg_calls a"
  "ffmpeg_calls (Model_Transcribe p # a) = ffmpeg_calls a"
  "ffmpeg_calls (Run_Ffmpeg i out # a) = (i, out) # ffmpeg_calls a"
  "ffmpeg_calls [] = []"
  by (simp_all add: sent_texts_def model_calls_def ffmpeg_calls_def)

lemma cleanup_events_warnings:
  "\<forall>x\<in>set (snd (cleanup warn fails ps fs)). \<exists>p. x = Print (warn p)"
  by (induction ps arbitrary: fs) (auto simp: snd_cleanup_Cons simp del: cleanup.simps(2))

lemma cleanup_trace [simp]:
  "sent_texts (snd (cleanup warn fails ps fs)) = []"
  "model_calls (snd (cleanup warn fails ps fs)) = []"
  "ffmpeg_calls (snd (cleanup warn fails ps fs)) = []"
  by (induction ps arbitrary: fs) (simp_all add: snd_cleanup_Cons del: cleanup.simps(2))

section \<open>The frame assembler and the quality gate\<close>

text \<open>
  Claim C4. For every byte buffer \<open>B\<close> the frame assembler produces a file; the sample
  payload of that file is \<open>B\<close> itself when the length of \<open>B\<close> is even, and \<open>B\<close> followed
  by one zero byte when it is odd; the payload length is even in both cases. This is
  the file the handler leaves at \<^verbatim>\<open>wav_file\<close> when both files can be opened.
\<close>

theorem frame_assembler_payload:
  "\<exists>a. frame_assembler B = Some a \<and>
       wave_payload a = (if even (length B) then B else B @ [0]) \<and>
       even (length (wave_payload a)) \<and>
       (open_error e (temp_file_of (uuid_hex e)) = None \<and>
        open_error e (wav_file_of (uuid_hex e)) = None \<longrightarrow>
          fst (snd (ws_try e B fs)) (wav_file_of (uuid_hex e)) = Some a)"
proof -
  have "wave_payload (wave_write 1 2 16000 (pad_odd B)) = pad_odd B"
    by (simp add: wave_payload_def wave_write_def length_wave_header)
  then show ?thesis
    using even_length_pad_odd [of B] ws_try_writes_artifact [of e B fs]
    by (simp add: frame_assembler_eq pad_odd_even)
qed

text \<open>Three bytes are padded to four; four bytes are kept as they are.\<close>

theorem frame_assembler_payload_witness:
  "map_option wave_payload (fst (snd (ws_try env_ok chunk_3 fs0)) (wav_file_of hex0)) =
     Some [1, 2, 3, 0] \<and>
   map_option wave_payload (fst (snd (ws_try env_ok [1, 2, 3, 4] fs0)) (wav_file_of hex0)) =
     Some [1, 2, 3, 4]"
proof -
  have opens: "open_error env_ok p = None" for p
    by (simp add: env_ok_def)
  have hex: "uuid_hex env_ok = hex0"
    by (simp add: env_ok_def)
  have "map_option wave_payload (fst (snd (ws_try env_ok chunk_3 fs0)) (wav_file_of hex0)) =
          Some [1, 2, 3, 0]"
    using frame_assembler_payload [of chunk_3 env_ok fs0] opens
    by (auto simp: hex chunk_3_def)
  moreover
  have "map_option wave_payload (fst (snd (ws_try env_ok [1, 2, 3, 4] fs0)) (wav_file_of hex0)) =
          Some [1, 2, 3, 4]"
    using frame_assembler_payload [of "[1, 2, 3, 4]" env_ok fs0] opens
    by (auto simp: hex)
  ultimately show ?thesis by simp
qed

text \<open>
  Claim C9. Reading a buffer as 16-bit samples faults exactly on an odd length. The
  handler appends one zero byte to a buffer of odd length and leaves the others as they
  are, so at the moment of the reading the length is even and the reading does not
  fault: the frame assembler yields a file for every buffer, and the body of the
  handler, once its two files can be opened, gets past the reading to the quality gate
  and leaves the assembled file at \<^verbatim>\<open>wav_file\<close>.
\<close>

theorem frombuffer_never_faults_after_padding:
  "(frombuffer_int16 B = None \<longleftrightarrow> odd (length B)) \<and>
   pad_odd B = (if odd (length B) then B @ [0] else B) \<and>
   even (length (pad_odd B)) \<and>
   frombuffer_int16 (pad_odd B) \<noteq> None \<and>
   frame_assembler B \<noteq> None \<and>
   (open_error e (temp_file_of (uuid_hex e)) = None \<and>
    open_error e (wav_file_of (uuid_hex e)) = None \<longrightarrow>
      snd (snd (ws_try e B fs)) \<noteq> [] \<and>
      fst (snd (ws_try e B fs)) (wav_file_of (uuid_hex e)) = frame_assembler B)"
proof -
  have reached: "snd (snd (ws_try e B fs)) \<noteq> []"
    if "open_error e (temp_file_of (uuid_hex e)) = None"
       "open_error e (wav_file_of (uuid_hex e)) = None"
    using that by (simp add: ws_try_eq Let_def split: sum.splits option.splits)
  show ?thesis
    using reached ws_try_writes_artifact [of e B fs]
    by (simp add: frombuffer_None_iff even_length_pad_odd pad_odd_even frame_assembler_eq)
qed

text \<open>
  Three bytes cannot be read as samples; padded to four they are the samples 513 and 3,
  and the body reaches the gate (which finds the file too small).
\<close>

theorem frombuffer_never_faults_after_padding_witness:
  "frombuffer_int16 chunk_3 = None \<and>
   pad_odd chunk_3 = [1, 2, 3, 0] \<and>
   frombuffer_int16 (pad_odd chunk_3) = Some [513, 3] \<and>
   snd (snd (ws_try env_ok chunk_3 fs0)) = [Print WS_Too_Small] \<and>
   fst (snd (ws_try env_ok chunk_3 fs0)) (wav_file_of hex0) = frame_assembler chunk_3 \<and>
   frame_assembler chunk_3 \<noteq> None"
proof -
  have opens: "open_error env_ok p = None" for p
    by (simp add: env_ok_def)
  have hex: "uuid_hex env_ok = hex0"
    by (simp add: env_ok_def)
  have pad: "pad_odd chunk_3 = [1, 2, 3, 0]"
    using frombuffer_never_faults_after_padding [of chunk_3 env_ok fs0]
    by (simp add: chunk_3_def)
  have cat: "(word_cat (2 :: 8 word) (1 :: 8 word) :: 16 word) = 513"
    "(word_cat (0 :: 8 word) (3 :: 8 word) :: 16 word) = 3"
    by (simp_all add: word_cat_eq)
  have ev: "snd (snd (ws_try env_ok chunk_3 fs0)) = [Print WS_Too_Small]"
    by (simp add: ws_try_eq Let_def opens pad)
  show ?thesis
    using frombuffer_never_faults_after_padding [of chunk_3 env_ok fs0] opens pad ev
    by (simp add: hex) (simp add: chunk_3_def cat)
qed

lemma process_chunk_model_calls:
  "model_calls (snd (process_chunk e d fs)) =
     (if open_error e (temp_file_of (uuid_hex e)) = None \<and>
         open_error e (wav_file_of (uuid_hex e)) = None \<and> 956 \<le> length (pad_odd d)
      then [wav_file_of (uuid_hex e)] else [])"
  by (simp add: process_chunk_def ws_try_eq Let_def split: option.splits sum.splits)

lemma passes_gate_iff:
  "passes_gate e d \<longleftrightarrow>
     open_error e (temp_file_of (uuid_hex e)) = None \<and>
     open_error e (wav_file_of (uuid_hex e)) = None \<and> 956 \<le> length (pad_odd d)"
  by (auto simp: passes_gate_def frame_assembler_eq length_wave_write quality_gate_def)

lemma process_chunk_sent_texts:
  "sent_texts (snd (process_chunk e d fs)) =
     (if passes_gate e d then
        (case model_text e d of
           None \<Rightarrow> []
         | Some t \<Rightarrow> if strip t \<noteq> [] \<and> send_error e = None then [t] else [])
      else [])"
  by (simp add: process_chunk_def ws_try_eq passes_gate_iff model_text_def frame_assembler_eq
      Let_def split: option.splits sum.splits)

text \<open>
  Claim C10. In the streaming path the gate is applied to the size of the assembled
  file, which is 44 bytes of header plus the padded payload, not to the length of the
  raw chunk. With both files written, a chunk reaches the model if and only if the gate
  accepts that size, which is if and only if its padded length is at least 956.
\<close>

theorem gate_measures_container_size:
  assumes "open_error e (temp_file_of (uuid_hex e)) = None"
      and "open_error e (wav_file_of (uuid_hex e)) = None"
  shows "\<exists>a. frame_assembler d = Some a \<and>
             length a = 44 + length (pad_odd d) \<and>
             (model_calls (snd (process_chunk e d fs)) \<noteq> [] \<longleftrightarrow> quality_gate (length a)) \<and>
             (model_calls (snd (process_chunk e d fs)) \<noteq> [] \<longleftrightarrow> 956 \<le> length (pad_odd d))"
  using assms
  by (simp add: frame_assembler_eq length_wave_write process_chunk_model_calls quality_gate_def)

text \<open>A chunk of 956 bytes, shorter than the threshold itself, reaches the model; one of
  954 bytes does not.\<close>

theorem gate_measures_container_size_witness:
  "model_calls (snd (process_chunk env_ok chunk_956 fs0)) \<noteq> [] \<and>
   length chunk_956 < 1000 \<and>
   model_calls (snd (process_chunk env_ok chunk_954 fs0)) = []"
proof -
  have opens: "open_error env_ok p = None" for p
    by (simp add: env_ok_def)
  have "model_calls (snd (process_chunk env_ok chunk_956 fs0)) \<noteq> []"
    using gate_measures_container_size [OF opens opens, of chunk_956 fs0]
    by (auto simp: chunk_956_def pad_odd_def)
  moreover have "model_calls (snd (process_chunk env_ok chunk_954 fs0)) = []"
    using gate_measures_container_size [OF opens opens, of chunk_954 fs0]
    by (auto simp: chunk_954_def pad_odd_def)
  ultimately show ?thesis
    by (simp add: chunk_956_def)
qed

lemma session_loop_Chunk:
  "session_loop (Chunk d e # rest) fs =
     (fst (session_loop rest (fst (process_chunk e d fs))),
      fst (snd (session_loop rest (fst (process_chunk e d fs)))),
      Print (WS_Received (length d)) # snd (process_chunk e d fs) @
        snd (snd (session_loop rest (fst (process_chunk e d fs)))))"
  by (simp split: prod.splits)

lemma websocket_endpoint_parts:
  "fst (websocket_endpoint inputs fs) = fst (session_loop inputs fs)"
  "fst (snd (websocket_endpoint inputs fs)) = fst (snd (session_loop inputs fs))"
  "snd (snd (websocket_endpoint inputs fs)) = Print WS_Connected # snd (snd (session_loop inputs fs))"
  by (simp_all add: websocket_endpoint_def split: prod.splits)

lemma session_loop_status:
  "fst (session_loop inputs fs) = Closed \<longleftrightarrow> (\<exists>r\<in>set inputs. is_receive_fault r)"
proof (induction inputs arbitrary: fs)
  case Nil
  then show ?case by simp
next
  case (Cons r rest)
  then show ?case
    by (cases r) (simp_all add: session_loop_Chunk is_receive_fault_def del: session_loop.simps(4))
qed

lemma process_chunk_rejected:
  assumes "open_error e (temp_file_of (uuid_hex e)) = None"
      and "open_error e (wav_file_of (uuid_hex e)) = None"
      and "length (pad_odd d) < 956"
  shows "fst (ws_try e d fs) = Returned ()"
    and "\<exists>fs1. snd (process_chunk e d fs) =
           Print WS_Too_Small #
           snd (cleanup WS_Warn_Remove (remove_fails e)
                  [temp_file_of (uuid_hex e), wav_file_of (uuid_hex e)] fs1)"
proof -
  show "fst (ws_try e d fs) = Returned ()"
    using assms by (simp add: ws_try_eq Let_def)
  have "snd (process_chunk e d fs) =
           Print WS_Too_Small #
           snd (cleanup WS_Warn_Remove (remove_fails e)
                  [temp_file_of (uuid_hex e), wav_file_of (uuid_hex e)]
                  (fs(temp_file_of (uuid_hex e) \<mapsto> d,
                      wav_file_of (uuid_hex e) \<mapsto> wave_write 1 2 16000 (pad_odd d))))"
    using assms by (simp add: process_chunk_def ws_try_eq Let_def del: cleanup.simps)
  then show "\<exists>fs1. snd (process_chunk e d fs) =
           Print WS_Too_Small #
           snd (cleanup WS_Warn_Remove (remove_fails e)
                  [temp_file_of (uuid_hex e), wav_file_of (uuid_hex e)] fs1)"
    by blast
qed

text \<open>
  Claim C5. The gate accepts a size if and only if it is at least 1000 bytes: 999 is
  rejected, 1000 is accepted. When the assembled file of a chunk is rejected, the body
  ends normally (nothing is raised and no error is printed), the model is not called,
  no text is sent, and the loop goes on with whatever is received next.
\<close>

theorem quality_gate_rejection_is_silent_skip:
  "(quality_gate n \<longleftrightarrow> 1000 \<le> n) \<and> \<not> quality_gate 999 \<and> quality_gate 1000 \<and>
   (open_error e (temp_file_of (uuid_hex e)) = None \<and>
    open_error e (wav_file_of (uuid_hex e)) = None \<and>
    frame_assembler d = Some a \<and> \<not> quality_gate (length a) \<longrightarrow>
      fst (ws_try e d fs) = Returned () \<and>
      model_calls (snd (process_chunk e d fs)) = [] \<and>
      sent_texts (snd (process_chunk e d fs)) = [] \<and>
      (\<forall>err. Print (WS_Error_Processing err) \<notin> set (snd (process_chunk e d fs))) \<and>
      fst (websocket_endpoint (Chunk d e # rest) fs) =
        fst (websocket_endpoint rest (fst (process_chunk e d fs))) \<and>
      snd (snd (session_loop (Chunk d e # rest) fs)) =
        Print (WS_Received (length d)) # snd (process_chunk e d fs) @
        snd (snd (session_loop rest (fst (process_chunk e d fs)))))"
proof -
  have gate: "(quality_gate n \<longleftrightarrow> 1000 \<le> n) \<and> \<not> quality_gate 999 \<and> quality_gate 1000"
    by (auto simp: quality_gate_def)
  have skip: "fst (ws_try e d fs) = Returned () \<and>
      model_calls (snd (process_chunk e d fs)) = [] \<and>
      sent_texts (snd (process_chunk e d fs)) = [] \<and>
      (\<forall>err. Print (WS_Error_Processing err) \<notin> set (snd (process_chunk e d fs)))"
    if opens: "open_error e (temp_file_of (uuid_hex e)) = None"
              "open_error e (wav_file_of (uuid_hex e)) = None"
      and a: "frame_assembler d = Some a" and rej: "\<not> quality_gate (length a)"
  proof -
    from a rej have small: "length (pad_odd d) < 956"
      by (auto simp: frame_assembler_eq length_wave_write quality_gate_def)
    obtain fs1 where ev: "snd (process_chunk e d fs) =
           Print WS_Too_Small #
           snd (cleanup WS_Warn_Remove (remove_fails e)
                  [temp_file_of (uuid_hex e), wav_file_of (uuid_hex e)] fs1)"
      using process_chunk_rejected(2) [OF opens small] by blast
    have "Print (WS_Error_Processing err) \<notin> set (snd (process_chunk e d fs))" for err
      using cleanup_events_warnings [of WS_Warn_Remove "remove_fails e"
          "[temp_file_of (uuid_hex e), wav_file_of (uuid_hex e)]" fs1]
      by (auto simp: ev)
    then show ?thesis
      using process_chunk_rejected(1) [OF opens small] by (simp add: ev)
  qed
  show ?thesis
    using gate skip
    by (simp add: websocket_endpoint_parts session_loop_Chunk del: session_loop.simps)
qed

theorem quality_gate_rejection_is_silent_skip_witness:
  "\<not> quality_gate (length (wave_write 1 2 16000 (pad_odd chunk_3))) \<and>
   fst (ws_try env_ok chunk_3 fs0) = Returned () \<and>
   model_calls (snd (process_chunk env_ok chunk_3 fs0)) = [] \<and>
   sent_texts (snd (process_chunk env_ok chunk_3 fs0)) = [] \<and>
   fst (websocket_endpoint [Chunk chunk_3 env_ok, Chunk chunk_956 env_ok] fs0) = Awaiting_Chunk"
proof -
  have opens: "open_error env_ok p = None" for p
    by (simp add: env_ok_def)
  have rej: "\<not> quality_gate (length (wave_write 1 2 16000 (pad_odd chunk_3)))"
    by (simp add: quality_gate_def length_wave_write pad_odd_def chunk_3_def)
  have "fst (websocket_endpoint [Chunk chunk_956 env_ok] (fst (process_chunk env_ok chunk_3 fs0)))
          = Awaiting_Chunk"
    by (simp add: websocket_endpoint_parts session_loop_Chunk del: session_loop.simps(4))
  then show ?thesis
    using quality_gate_rejection_is_silent_skip
      [of 0 env_ok chunk_3 "wave_write 1 2 16000 (pad_odd chunk_3)" fs0 "[Chunk chunk_956 env_ok]"]
      opens rej
    by (simp add: frame_assembler_eq)
qed

section \<open>The streaming session\<close>

lemma session_sent_texts:
  "sent_texts (snd (snd (session_loop (map to_chunk cs) fs))) =
     concat (map (\<lambda>c. sent_texts (snd (process_chunk (snd c) (fst c) Map.empty))) cs)"
proof (induction cs arbitrary: fs)
  case Nil
  then show ?case by simp
next
  case (Cons c cs)
  have "sent_texts (snd (process_chunk (snd c) (fst c) fs)) =
        sent_texts (snd (process_chunk (snd c) (fst c) Map.empty))"
    by (simp only: process_chunk_sent_texts)
  then show ?case
    using Cons.IH by (simp add: to_chunk_def session_loop_Chunk del: session_loop.simps(4))
qed

text \<open>
  Claim C3. A session receives the chunks \<open>cs\<close>, in this order. Suppose \<open>k\<close> of them pass
  the quality gate, and each of those yields a text that is not empty after stripping
  (and the peer takes the message). Then the texts sent are, one for one and in the
  order of the chunks, the texts of the chunks that pass the gate, so exactly \<open>k\<close>
  messages are sent. A chunk that the gate rejects, or whose text is empty or blank,
  sends nothing.
\<close>

theorem streaming_one_text_per_passing_chunk:
  assumes "\<forall>c\<in>set cs. passes_gate (snd c) (fst c) \<longrightarrow>
             (\<exists>t. model_text (snd c) (fst c) = Some t \<and> strip t \<noteq> []) \<and> send_error (snd c) = None"
      and "length (filter (\<lambda>c. passes_gate (snd c) (fst c)) cs) = k"
  shows "list_all2 (\<lambda>t c. model_text (snd c) (fst c) = Some t)
           (sent_texts (snd (snd (websocket_endpoint (map to_chunk cs) fs))))
           (filter (\<lambda>c. passes_gate (snd c) (fst c)) cs) \<and>
         length (sent_texts (snd (snd (websocket_endpoint (map to_chunk cs) fs)))) = k \<and>
         (\<not> passes_gate e d \<or> (\<exists>t. model_text e d = Some t \<and> strip t = []) \<longrightarrow>
            sent_texts (snd (process_chunk e d fs')) = [])"
proof -
  let ?sent = "\<lambda>cs. concat (map (\<lambda>c. sent_texts (snd (process_chunk (snd c) (fst c) Map.empty))) cs)"
  let ?pass = "\<lambda>c. passes_gate (snd c) (fst c)"
  have all: "list_all2 (\<lambda>t c. model_text (snd c) (fst c) = Some t) (?sent cs) (filter ?pass cs)"
    using assms(1)
  proof (induction cs)
    case Nil
    then show ?case by simp
  next
    case (Cons c cs)
    then have tl: "list_all2 (\<lambda>t c. model_text (snd c) (fst c) = Some t) (?sent cs) (filter ?pass cs)"
      by simp
    show ?case
    proof (cases "?pass c")
      case True
      with Cons.prems obtain t where "model_text (snd c) (fst c) = Some t" "strip t \<noteq> []"
        "send_error (snd c) = None"
        by auto
      with True tl show ?thesis
        by (simp add: process_chunk_sent_texts)
    next
      case False
      with tl show ?thesis
        by (simp add: process_chunk_sent_texts)
    qed
  qed
  have sent: "sent_texts (snd (snd (websocket_endpoint (map to_chunk cs) fs))) = ?sent cs"
    by (simp add: websocket_endpoint_parts session_sent_texts)
  have len: "length (?sent cs) = k"
    using all assms(2) by (simp add: list_all2_lengthD)
  have none: "sent_texts (snd (process_chunk e d fs')) = []"
    if "\<not> passes_gate e d \<or> (\<exists>t. model_text e d = Some t \<and> strip t = [])"
    using that by (auto simp: process_chunk_sent_texts)
  show ?thesis
    using all len none unfolding sent by blast
qed

text \<open>
  Three chunks: 956 bytes (passes, text \<open>hello world\<close>), 3 bytes (rejected), 956 bytes
  again. Two messages are sent.
\<close>

theorem streaming_one_text_per_passing_chunk_witness:
  "sent_texts (snd (snd (websocket_endpoint
       (map to_chunk [(chunk_956, env_ok), (chunk_3, env_ok), (chunk_956, env_ok)]) fs0))) =
     [ascii ''hello world'', ascii ''hello world''] \<and>
   sent_texts (snd (process_chunk env_blank chunk_956 fs0)) = []"
proof -
  have p956: "passes_gate env_ok chunk_956"
    by (simp add: passes_gate_iff env_ok_def chunk_956_def pad_odd_def)
  have p3: "\<not> passes_gate env_ok chunk_3"
    by (simp add: passes_gate_iff env_ok_def chunk_3_def pad_odd_def)
  have mtext: "model_text env_ok d = Some (ascii ''hello world'')" for d
    by (simp add: model_text_def env_ok_def ascii_def)
  have nonblank: "strip (ascii ''hello world'') \<noteq> []"
    by (simp add: strip_def ascii_def isspace_def)
  have send: "send_error env_ok = None"
    by (simp add: env_ok_def)
  have blank: "model_text env_blank chunk_956 = Some (ascii ''  '')" "strip (ascii ''  '') = []"
    by (simp_all add: model_text_def env_blank_def env_ok_def ascii_def strip_def isspace_def)
  show ?thesis
    using streaming_one_text_per_passing_chunk
      [of "[(chunk_956, env_ok), (chunk_3, env_ok), (chunk_956, env_ok)]" 2 fs0
          env_blank chunk_956 fs0]
      p956 p3 mtext nonblank send blank
    by (auto simp: list_all2_Cons2)
qed

lemma ws_try_raised:
  assumes "fst (ws_try e d fs) = Raised err"
  shows "sent_texts (snd (snd (ws_try e d fs))) = []"
  using assms
  by (auto simp: ws_try_eq Let_def split: option.splits sum.splits if_splits)

lemma process_chunk_events:
  "snd (process_chunk e d fs) =
     snd (snd (ws_try e d fs)) @
     (case fst (ws_try e d fs) of Returned u \<Rightarrow> [] | Raised err \<Rightarrow> [Print (WS_Error_Processing err)]) @
     snd (cleanup WS_Warn_Remove (remove_fails e)
            [temp_file_of (uuid_hex e), wav_file_of (uuid_hex e)] (fst (snd (ws_try e d fs))))"
  by (simp add: process_chunk_def Let_def split: prod.splits del: cleanup.simps)

text \<open>
  Claim C7. When the processing of a chunk raises (the model fails, or anything else in
  the body does), the exception is caught and printed, nothing is sent for that chunk,
  and the session is not closed: the loop goes on with what is received next, and after
  the chunk alone it is awaiting the next one. A session is closed exactly when a
  receive ended in a disconnect or another receive fault.
\<close>

theorem chunk_failure_does_not_close_session:
  assumes "fst (ws_try e d fs) = Raised err"
  shows "Print (WS_Error_Processing err) \<in> set (snd (process_chunk e d fs)) \<and>
         sent_texts (snd (process_chunk e d fs)) = [] \<and>
         fst (websocket_endpoint [Chunk d e] fs) = Awaiting_Chunk \<and>
         fst (websocket_endpoint (Chunk d e # rest) fs) =
           fst (websocket_endpoint rest (fst (process_chunk e d fs))) \<and>
         snd (snd (session_loop (Chunk d e # rest) fs)) =
           Print (WS_Received (length d)) # snd (process_chunk e d fs) @
           snd (snd (session_loop rest (fst (process_chunk e d fs)))) \<and>
         (fst (websocket_endpoint inputs fs') = Closed \<longleftrightarrow> (\<exists>r\<in>set inputs. is_receive_fault r))"
proof -
  have logged: "Print (WS_Error_Processing err) \<in> set (snd (process_chunk e d fs))"
    by (simp add: process_chunk_events assms del: cleanup.simps)
  have skipped: "sent_texts (snd (process_chunk e d fs)) = []"
    by (simp add: process_chunk_events assms ws_try_raised del: cleanup.simps)
  show ?thesis
    using logged skipped
    by (simp add: websocket_endpoint_parts session_loop_Chunk session_loop_status
        del: session_loop.simps(4))
qed

text \<open>
  The model raises on the second of three chunks: the error is printed, the first and
  the third chunk are answered, the session is still open; a disconnect closes it.
\<close>

theorem chunk_failure_does_not_close_session_witness:
  "fst (ws_try env_model_fails chunk_956 fs0) = Raised (ascii ''CUDA out of memory'') \<and>
   Print (WS_Error_Processing (ascii ''CUDA out of memory''))
     \<in> set (snd (process_chunk env_model_fails chunk_956 fs0)) \<and>
   sent_texts (snd (process_chunk env_model_fails chunk_956 fs0)) = [] \<and>
   fst (websocket_endpoint [Chunk chunk_956 env_model_fails] fs0) = Awaiting_Chunk \<and>
   fst (websocket_endpoint [Chunk chunk_956 env_model_fails, Disconnect] fs0) = Closed"
proof -
  have raised: "fst (ws_try env_model_fails chunk_956 fs0) = Raised (ascii ''CUDA out of memory'')"
    by (simp add: ws_try_eq env_model_fails_def env_ok_def chunk_956_def pad_odd_def)
  show ?thesis
    using chunk_failure_does_not_close_session
      [OF raised, of "[]" "[Chunk chunk_956 env_model_fails, Disconnect]" fs0] raised
    by (simp add: is_receive_fault_def)
qed

section \<open>The one-shot request\<close>

lemma input_path_neq_audio_path [simp]:
  "input_path_of h \<noteq> audio_path_of h" "audio_path_of h \<noteq> input_path_of h"
  by (simp_all add: input_path_of_def audio_path_of_def)

lemma transcribe_audio_parts:
  "fst (transcribe_audio e fs) =
     (case fst (transcribe_try e fs) of Returned r \<Rightarrow> r | Raised err \<Rightarrow> Error_Tuple err 500)"
  "fst (snd (transcribe_audio e fs)) =
     fst (cleanup Warn_Remove (remove_fails e)
            [input_path_of (uuid_hex e), audio_path_of (uuid_hex e)] (fst (snd (transcribe_try e fs))))"
  "snd (snd (transcribe_audio e fs)) =
     snd (snd (transcribe_try e fs)) @
     (case fst (transcribe_try e fs) of Returned r \<Rightarrow> [] | Raised err \<Rightarrow> [Print (Error_Processing err)]) @
     snd (cleanup Warn_Remove (remove_fails e)
            [input_path_of (uuid_hex e), audio_path_of (uuid_hex e)] (fst (snd (transcribe_try e fs))))"
  by (simp_all add: transcribe_audio_def Let_def split: prod.splits outcome.splits del: cleanup.simps)

lemma transcribe_try_saved:
  assumes "open_error e (input_path_of (uuid_hex e)) = None" and "upload e = Inr content"
  shows "transcribe_try e fs =
     (let input_path = input_path_of (uuid_hex e);
          audio_path = audio_path_of (uuid_hex e);
          fs1 = fs(input_path \<mapsto> content);
          ev1 = [Print (Debug_Saving input_path), Print (Debug_Ffmpeg_Start input_path audio_path),
                 Run_Ffmpeg input_path audio_path]
      in case ffmpeg e content of
           Run_Raises err \<Rightarrow> (Raised err, fs1, ev1)
         | Completed returncode stderr out \<Rightarrow>
            (let fs2 = (case out of None \<Rightarrow> fs1 | Some b \<Rightarrow> fs1(audio_path \<mapsto> b))
             in if returncode \<noteq> 0 then
                  (Raised msg_ffmpeg_failed, fs2,
                   ev1 @ [Print Ffmpeg_Error_Banner, Print (Ffmpeg_Stderr stderr)])
                else
                 (let ev2 = ev1 @ [Print Debug_Whisper_Run, Model_Transcribe audio_path]
                  in case whisper e (case out of None \<Rightarrow> fs audio_path | Some b \<Rightarrow> Some b) of
                       Inl err \<Rightarrow> (Raised err, fs2, ev2)
                     | Inr segments \<Rightarrow>
                        (Returned (Transcription (join (ascii '' '') (map seg_text segments))), fs2,
                         ev2 @ [Print (Debug_Result (join (ascii '' '') (map seg_text segments)))]))))"
  using assms
  by (simp add: transcribe_try_def Let_def split: run_result.splits option.splits sum.splits)

lemma join_single_spaces: "join (ascii '' '') ts = joined_by_single_spaces ts"
proof (induction "ascii '' ''" ts rule: join.induct)
  case 1
  then show ?case by (simp add: joined_by_single_spaces_def)
next
  case (2 x)
  then show ?case by (simp add: joined_by_single_spaces_def)
next
  case (3 x y ys)
  then show ?case by (simp add: joined_by_single_spaces_def ascii_def)
qed

text \<open>
  Claim C8. When the upload is saved, the transcoder exits with status 0 and the model
  returns its segments, the response is the transcription whose text is the segments'
  texts joined by \<^verbatim>\<open>" ".join\<close>: the texts in the order the model returned them, each
  one after the first preceded by exactly one space, none dropped, none moved, and
  nothing stripped.
\<close>

theorem oneshot_success_joins_segments:
  assumes "open_error e (input_path_of (uuid_hex e)) = None"
      and "upload e = Inr content"
      and "ffmpeg e content = Completed 0 stderr out"
      and "whisper e (case out of None \<Rightarrow> fs (audio_path_of (uuid_hex e)) | Some b \<Rightarrow> Some b)
             = Inr segments"
  shows "fst (transcribe_audio e fs) = Transcription (join (ascii '' '') (map seg_text segments)) \<and>
         join (ascii '' '') (map seg_text segments) = joined_by_single_spaces (map seg_text segments)"
  using assms(3,4)
  by (simp add: transcribe_audio_parts transcribe_try_saved [OF assms(1,2)] Let_def
      join_single_spaces)

text \<open>Two segments give \<open>hello world\<close>; a segment of two blanks is returned as it is.\<close>

theorem oneshot_success_joins_segments_witness:
  "fst (transcribe_audio env_ok fs0) = Transcription (ascii ''hello world'') \<and>
   fst (transcribe_audio env_blank fs0) = Transcription (ascii ''  '')"
proof -
  have "fst (transcribe_audio env_ok fs0) = Transcription (ascii ''hello world'')"
    using oneshot_success_joins_segments
      [of env_ok "[82, 73, 70, 70]" "[]" "Some [1, 0, 2, 0]" fs0
          "[\<lparr>seg_text = ascii ''hello''\<rparr>, \<lparr>seg_text = ascii ''world''\<rparr>]"]
    by (simp add: env_ok_def ascii_def)
  moreover have "fst (transcribe_audio env_blank fs0) = Transcription (ascii ''  '')"
    using oneshot_success_joins_segments
      [of env_blank "[82, 73, 70, 70]" "[]" "Some [1, 0, 2, 0]" fs0 "[\<lparr>seg_text = ascii ''  ''\<rparr>]"]
    by (simp add: env_blank_def env_ok_def ascii_def)
  ultimately show ?thesis by simp
qed

text \<open>
  Claim C1, as stated, fails. An empty upload is saved as an empty file, which exists,
  so the check of line 48 lets it through: the transcoder is run on it, and when the
  transcoder rejects it the response is the error pair of the \<^verbatim>\<open>except\<close> branch, not the
  payload of the existence check.
\<close>

theorem empty_upload_reaches_transcoder_counterexample:
  "upload env_empty_upload = Inr [] \<and>
   fst (transcribe_audio env_empty_upload fs0) = Error_Tuple msg_ffmpeg_failed 500 \<and>
   fst (transcribe_audio env_empty_upload fs0) \<noteq> Error_Dict msg_save_failed \<and>
   ffmpeg_calls (snd (snd (transcribe_audio env_empty_upload fs0))) =
     [(input_path_of hex0, audio_path_of hex0)]"
proof -
  have opens: "open_error env_empty_upload (input_path_of (uuid_hex env_empty_upload)) = None"
    and up: "upload env_empty_upload = Inr []"
    by (simp_all add: env_empty_upload_def env_ok_def)
  show ?thesis
    by (simp add: transcribe_audio_parts transcribe_try_saved [OF opens up] Let_def up)
       (simp add: env_empty_upload_def env_ok_def)
qed

text \<open>
  Claim C1, amended. For every one-shot request whose uploaded file is empty and is
  saved without a fault, the handler does not reject the upload: it runs the transcoder
  exactly once, on the saved empty file; its response is never the payload of the
  existence check; and it calls the model if and only if the transcoder exits with
  status 0 on the empty file.
\<close>

theorem empty_upload_is_transcoded:
  assumes "open_error e (input_path_of (uuid_hex e)) = None"
      and "upload e = Inr []"
  shows "ffmpeg_calls (snd (snd (transcribe_audio e fs))) =
           [(input_path_of (uuid_hex e), audio_path_of (uuid_hex e))] \<and>
         fst (transcribe_audio e fs) \<noteq> Error_Dict msg_save_failed \<and>
         (model_calls (snd (snd (transcribe_audio e fs))) \<noteq> [] \<longleftrightarrow>
            (\<exists>stderr out. ffmpeg e [] = Completed 0 stderr out))"
  by (cases "ffmpeg e []")
     (simp_all add: transcribe_audio_parts transcribe_try_saved [OF assms] Let_def
        split: sum.splits del: cleanup.simps)

theorem empty_upload_is_transcoded_witness:
  "ffmpeg_calls (snd (snd (transcribe_audio env_empty_upload fs0))) =
     [(input_path_of hex0, audio_path_of hex0)] \<and>
   model_calls (snd (snd (transcribe_audio env_empty_upload fs0))) = []"
  using empty_upload_is_transcoded [of env_empty_upload fs0]
  by (simp add: env_empty_upload_def env_ok_def)

text \<open>
  Claim C2, as stated, fails. When the transcoder exits with status 1 and the diagnostic
  \<open>stderr0\<close>, the payload of the response is the fixed message of the \<^verbatim>\<open>RuntimeError\<close>,
  and the diagnostic does not occur in it.
\<close>

theorem transcoder_failure_payload_counterexample:
  "ffmpeg env_ffmpeg_fails [82, 73, 70, 70] = Completed 1 stderr0 None \<and>
   fst (transcribe_audio env_ffmpeg_fails fs0) = Error_Tuple msg_ffmpeg_failed 500 \<and>
   \<not> contains msg_ffmpeg_failed stderr0"
proof -
  have opens: "open_error env_ffmpeg_fails (input_path_of (uuid_hex env_ffmpeg_fails)) = None"
    and up: "upload env_ffmpeg_fails = Inr [82, 73, 70, 70]"
    and run: "ffmpeg env_ffmpeg_fails [82, 73, 70, 70] = Completed 1 stderr0 None"
    by (simp_all add: env_ffmpeg_fails_def env_ok_def)
  have "\<not> contains msg_ffmpeg_failed stderr0"
    by (simp add: msg_ffmpeg_failed_def stderr0_def ascii_def)
  then show ?thesis
    by (simp add: transcribe_audio_parts transcribe_try_saved [OF opens up] Let_def run)
qed

text \<open>
  Claim C2, amended. For every one-shot request in which the transcoder exits with a
  non-zero status, the handler returns the error pair whose payload is the fixed
  conversion-failure message, with 500; the transcoder's diagnostic (stderr) text is
  printed to the console and is not put into the payload; and the model is never
  invoked for that request.
\<close>

theorem transcoder_failure_fixed_message:
  assumes "open_error e (input_path_of (uuid_hex e)) = None"
      and "upload e = Inr content"
      and "ffmpeg e content = Completed returncode stderr out"
      and "returncode \<noteq> 0"
  shows "fst (transcribe_audio e fs) = Error_Tuple msg_ffmpeg_failed 500 \<and>
         Print (Ffmpeg_Stderr stderr) \<in> set (snd (snd (transcribe_audio e fs))) \<and>
         model_calls (snd (snd (transcribe_audio e fs))) = []"
  using assms(3,4)
  by (simp add: transcribe_audio_parts transcribe_try_saved [OF assms(1,2)] Let_def
      del: cleanup.simps)

theorem transcoder_failure_fixed_message_witness:
  "fst (transcribe_audio env_ffmpeg_fails fs0) = Error_Tuple msg_ffmpeg_failed 500 \<and>
   Print (Ffmpeg_Stderr stderr0) \<in> set (snd (snd (transcribe_audio env_ffmpeg_fails fs0))) \<and>
   model_calls (snd (snd (transcribe_audio env_ffmpeg_fails fs0))) = []"
  using transcoder_failure_fixed_message
    [of env_ffmpeg_fails "[82, 73, 70, 70]" 1 stderr0 None fs0]
  by (simp add: env_ffmpeg_fails_def env_ok_def)

section \<open>Temporary files\<close>

lemma removals_succeed_fields [simp]:
  "uuid_hex (removals_succeed e) = uuid_hex e"
  "open_error (removals_succeed e) = open_error e"
  "upload (removals_succeed e) = upload e"
  "ffmpeg (removals_succeed e) = ffmpeg e"
  "whisper (removals_succeed e) = whisper e"
  "send_error (removals_succeed e) = send_error e"
  "remove_fails (removals_succeed e) p = False"
  by (simp_all add: removals_succeed_def)

lemma removals_succeed_try [simp]:
  "transcribe_try (removals_succeed e) fs = transcribe_try e fs"
  "ws_try (removals_succeed e) d fs = ws_try e d fs"
  unfolding transcribe_try_def ws_try_def removals_succeed_fields by (rule refl)+

lemma cleanup_filter_warnings:
  "filter (\<lambda>x. \<not> is_warning x) (snd (cleanup Warn_Remove fails ps fs)) = []"
  "filter (\<lambda>x. \<not> is_warning x) (snd (cleanup WS_Warn_Remove fails ps fs)) = []"
  by (induction ps arbitrary: fs) (simp_all add: snd_cleanup_Cons del: cleanup.simps(2))

lemma transcribe_try_no_warning:
  "filter (\<lambda>x. \<not> is_warning x) (snd (snd (transcribe_try e fs))) = snd (snd (transcribe_try e fs))"
  by (simp add: transcribe_try_def Let_def
      split: option.splits sum.splits run_result.splits)

lemma ws_try_no_warning:
  "filter (\<lambda>x. \<not> is_warning x) (snd (snd (ws_try e d fs))) = snd (snd (ws_try e d fs))"
  by (simp add: ws_try_eq Let_def split: option.splits sum.splits)

lemma cleanup_failed_kept:
  "fails p \<Longrightarrow> fst (cleanup warn fails ps fs) p = fs p"
  by (induction ps arbitrary: fs) (auto simp: fst_cleanup_Cons simp del: cleanup.simps(2))

lemma cleanup_logged_iff:
  assumes "inj warn"
  shows "Print (warn p) \<in> set (snd (cleanup warn fails ps fs)) \<longleftrightarrow>
           p \<in> set ps \<and> fails p \<and> fs p \<noteq> None"
proof (induction ps arbitrary: fs)
  case Nil
  then show ?case by simp
next
  case (Cons q ps)
  show ?case
    by (cases "q = p")
       (auto simp: snd_cleanup_Cons Cons.IH inj_eq [OF assms] simp del: cleanup.simps(2))
qed

lemma inj_warn: "inj Warn_Remove" "inj WS_Warn_Remove"
  by (simp_all add: inj_on_def)

lemma try_events_not_warnings:
  "Print (Warn_Remove p) \<notin> set (snd (snd (transcribe_try e fs)))"
  "Print (WS_Warn_Remove p) \<notin> set (snd (snd (ws_try e d fs)))"
proof -
  have "\<forall>x\<in>set (snd (snd (transcribe_try e fs))). \<not> is_warning x"
    using transcribe_try_no_warning [of e fs] by (simp add: filter_id_conv)
  then show "Print (Warn_Remove p) \<notin> set (snd (snd (transcribe_try e fs)))"
    by force
  have "\<forall>x\<in>set (snd (snd (ws_try e d fs))). \<not> is_warning x"
    using ws_try_no_warning [of e d fs] by (simp add: filter_id_conv)
  then show "Print (WS_Warn_Remove p) \<notin> set (snd (snd (ws_try e d fs)))"
    by force
qed

lemma transcribe_audio_warned_iff:
  "Print (Warn_Remove p) \<in> set (snd (snd (transcribe_audio e fs))) \<longleftrightarrow>
     p \<in> {input_path_of (uuid_hex e), audio_path_of (uuid_hex e)} \<and> remove_fails e p \<and>
     fst (snd (transcribe_try e fs)) p \<noteq> None"
  by (simp add: transcribe_audio_parts try_events_not_warnings cleanup_logged_iff [OF inj_warn(1)]
      split: outcome.splits del: cleanup.simps)

lemma process_chunk_warned_iff:
  "Print (WS_Warn_Remove p) \<in> set (snd (process_chunk e d fs)) \<longleftrightarrow>
     p \<in> {temp_file_of (uuid_hex e), wav_file_of (uuid_hex e)} \<and> remove_fails e p \<and>
     fst (snd (ws_try e d fs)) p \<noteq> None"
  by (simp add: process_chunk_events try_events_not_warnings cleanup_logged_iff [OF inj_warn(2)]
      split: outcome.splits del: cleanup.simps)

lemma process_chunk_fs:
  "fst (process_chunk e d fs) =
      fst (cleanup WS_Warn_Remove (remove_fails e)
            [temp_file_of (uuid_hex e), wav_file_of (uuid_hex e)] (fst (snd (ws_try e d fs))))"
  by (simp add: process_chunk_def Let_def split: prod.splits del: cleanup.simps)

text \<open>
  Claim C6. After a one-shot request, and after the processing of a streaming chunk,
  neither of the two temporary files of that step exists, whatever happened in the
  body (it returned, it took the \<^verbatim>\<open>continue\<close>, it raised), provided their removal does
  not fail. A removal that fails is logged and nothing more: the warning for a path is
  printed exactly when the path is one of the two, exists at the end of the body and
  its removal fails; the file is then left as the body left it; the response is the one
  given when every removal succeeds, the other effects are the same, and the streaming
  loop goes on with what is received next.
\<close>

theorem temporary_files_removed_on_every_path:
  "(\<not> remove_fails e (input_path_of (uuid_hex e)) \<and> \<not> remove_fails e (audio_path_of (uuid_hex e)) \<longrightarrow>
      fst (snd (transcribe_audio e fs)) (input_path_of (uuid_hex e)) = None \<and>
      fst (snd (transcribe_audio e fs)) (audio_path_of (uuid_hex e)) = None) \<and>
   (\<not> remove_fails e (temp_file_of (uuid_hex e)) \<and> \<not> remove_fails e (wav_file_of (uuid_hex e)) \<longrightarrow>
      fst (process_chunk e d fs) (temp_file_of (uuid_hex e)) = None \<and>
      fst (process_chunk e d fs) (wav_file_of (uuid_hex e)) = None) \<and>
   (Print (Warn_Remove p) \<in> set (snd (snd (transcribe_audio e fs))) \<longleftrightarrow>
      p \<in> {input_path_of (uuid_hex e), audio_path_of (uuid_hex e)} \<and> remove_fails e p \<and>
      fst (snd (transcribe_try e fs)) p \<noteq> None) \<and>
   (Print (WS_Warn_Remove p) \<in> set (snd (process_chunk e d fs)) \<longleftrightarrow>
      p \<in> {temp_file_of (uuid_hex e), wav_file_of (uuid_hex e)} \<and> remove_fails e p \<and>
      fst (snd (ws_try e d fs)) p \<noteq> None) \<and>
   (remove_fails e p \<longrightarrow>
      fst (snd (transcribe_audio e fs)) p = fst (snd (transcribe_try e fs)) p \<and>
      fst (process_chunk e d fs) p = fst (snd (ws_try e d fs)) p) \<and>
   fst (transcribe_audio e fs) = fst (transcribe_audio (removals_succeed e) fs) \<and>
   filter (\<lambda>x. \<not> is_warning x) (snd (snd (transcribe_audio e fs))) =
     snd (snd (transcribe_audio (removals_succeed e) fs)) \<and>
   filter (\<lambda>x. \<not> is_warning x) (snd (process_chunk e d fs)) =
     snd (process_chunk (removals_succeed e) d fs) \<and>
   fst (websocket_endpoint (Chunk d e # rest) fs) =
     fst (websocket_endpoint rest (fst (process_chunk e d fs)))"
proof -
  have oneshot: "fst (snd (transcribe_audio e fs)) q = None"
    if "\<not> remove_fails e (input_path_of (uuid_hex e))"
       "\<not> remove_fails e (audio_path_of (uuid_hex e))"
       "q \<in> {input_path_of (uuid_hex e), audio_path_of (uuid_hex e)}" for q
    unfolding transcribe_audio_parts
    by (rule cleanup_removed) (use that in auto)
  have chunk: "fst (process_chunk e d fs) q = None"
    if "\<not> remove_fails e (temp_file_of (uuid_hex e))"
       "\<not> remove_fails e (wav_file_of (uuid_hex e))"
       "q \<in> {temp_file_of (uuid_hex e), wav_file_of (uuid_hex e)}" for q
    unfolding process_chunk_fs
    by (rule cleanup_removed) (use that in auto)
  have kept: "fst (snd (transcribe_audio e fs)) p = fst (snd (transcribe_try e fs)) p \<and>
      fst (process_chunk e d fs) p = fst (snd (ws_try e d fs)) p"
    if "remove_fails e p"
    using that by (simp add: transcribe_audio_parts process_chunk_fs cleanup_failed_kept
        del: cleanup.simps)
  have resp: "fst (transcribe_audio e fs) = fst (transcribe_audio (removals_succeed e) fs)"
    by (simp add: transcribe_audio_parts)
  have ev1: "filter (\<lambda>x. \<not> is_warning x) (snd (snd (transcribe_audio e fs))) =
     snd (snd (transcribe_audio (removals_succeed e) fs))"
    by (simp add: transcribe_audio_parts transcribe_try_no_warning cleanup_filter_warnings
        cleanup_no_fail_events split: outcome.splits del: cleanup.simps)
  have ev2: "filter (\<lambda>x. \<not> is_warning x) (snd (process_chunk e d fs)) =
     snd (process_chunk (removals_succeed e) d fs)"
    by (simp add: process_chunk_events ws_try_no_warning cleanup_filter_warnings
        cleanup_no_fail_events split: outcome.splits del: cleanup.simps)
  have goes_on: "fst (websocket_endpoint (Chunk d e # rest) fs) =
     fst (websocket_endpoint rest (fst (process_chunk e d fs)))"
    by (simp add: websocket_endpoint_parts session_loop_Chunk del: session_loop.simps(4))
  show ?thesis
    using oneshot chunk kept resp ev1 ev2 goes_on
      transcribe_audio_warned_iff [of p e fs] process_chunk_warned_iff [of p e d fs]
    by simp
qed


text \<open>
  With every collaborator succeeding, and with the model raising on a chunk that passed
  the gate, the files written during the step are gone after it. When every removal
  raises, the warnings are printed, the files stay, the response is unchanged and the
  session stays open.
\<close>

theorem temporary_files_removed_on_every_path_witness:
  "fst (snd (transcribe_try env_ok fs0)) (input_path_of hex0) = Some [82, 73, 70, 70] \<and>
   fst (snd (transcribe_try env_ok fs0)) (audio_path_of hex0) = Some [1, 0, 2, 0] \<and>
   fst (snd (transcribe_audio env_ok fs0)) (input_path_of hex0) = None \<and>
   fst (snd (transcribe_audio env_ok fs0)) (audio_path_of hex0) = None \<and>
   fst (ws_try env_model_fails chunk_956 fs0) = Raised (ascii ''CUDA out of memory'') \<and>
   fst (snd (ws_try env_model_fails chunk_956 fs0)) (temp_file_of hex0) = Some chunk_956 \<and>
   fst (process_chunk env_model_fails chunk_956 fs0) (temp_file_of hex0) = None \<and>
   fst (process_chunk env_model_fails chunk_956 fs0) (wav_file_of hex0) = None \<and>
   Print (Warn_Remove (input_path_of hex0)) \<in> set (snd (snd (transcribe_audio env_remove_fails fs0))) \<and>
   fst (snd (transcribe_audio env_remove_fails fs0)) (input_path_of hex0) = Some [82, 73, 70, 70] \<and>
   fst (transcribe_audio env_remove_fails fs0) = fst (transcribe_audio env_ok fs0) \<and>
   Print (WS_Warn_Remove (temp_file_of hex0)) \<in> set (snd (process_chunk env_remove_fails chunk_956 fs0)) \<and>
   fst (websocket_endpoint [Chunk chunk_956 env_remove_fails] fs0) = Awaiting_Chunk"
proof -
  have opens: "open_error env_ok (input_path_of (uuid_hex env_ok)) = None"
    and up: "upload env_ok = Inr [82, 73, 70, 70]"
    by (simp_all add: env_ok_def)
  have opens_rf: "open_error env_remove_fails (input_path_of (uuid_hex env_remove_fails)) = None"
    and up_rf: "upload env_remove_fails = Inr [82, 73, 70, 70]"
    by (simp_all add: env_remove_fails_def env_ok_def)
  have hex: "uuid_hex env_ok = hex0" "uuid_hex env_model_fails = hex0"
    "uuid_hex env_remove_fails = hex0"
    by (simp_all add: env_ok_def env_model_fails_def env_remove_fails_def)
  have rf: "\<not> remove_fails env_ok p" "\<not> remove_fails env_model_fails p"
    "remove_fails env_remove_fails p" for p
    by (simp_all add: env_ok_def env_model_fails_def env_remove_fails_def)
  have restored: "removals_succeed env_remove_fails = env_ok"
    by (simp add: removals_succeed_def env_remove_fails_def env_ok_def)
  have during: "fst (snd (transcribe_try env_ok fs0)) (input_path_of hex0) = Some [82, 73, 70, 70]"
    "fst (snd (transcribe_try env_ok fs0)) (audio_path_of hex0) = Some [1, 0, 2, 0]"
    by (simp add: transcribe_try_saved [OF opens up] Let_def, simp add: env_ok_def)+
  have during_rf:
    "fst (snd (transcribe_try env_remove_fails fs0)) (input_path_of hex0) = Some [82, 73, 70, 70]"
    by (simp add: transcribe_try_saved [OF opens_rf up_rf] Let_def)
       (simp add: env_remove_fails_def env_ok_def)
  have raised: "fst (ws_try env_model_fails chunk_956 fs0) = Raised (ascii ''CUDA out of memory'')"
    by (simp add: ws_try_eq env_model_fails_def env_ok_def chunk_956_def pad_odd_def)
  have neq: "temp_file_of hex0 \<noteq> wav_file_of hex0"
    by (simp add: wav_file_of_hex hex0_def temp_file_of_def)
  have during_ws:
    "fst (snd (ws_try env_model_fails chunk_956 fs0)) (temp_file_of hex0) = Some chunk_956"
    "fst (snd (ws_try env_remove_fails chunk_956 fs0)) (temp_file_of hex0) = Some chunk_956"
    using neq
    by (simp_all add: ws_try_eq Let_def hex env_model_fails_def env_remove_fails_def env_ok_def
        chunk_956_def pad_odd_def)
  show ?thesis
    using temporary_files_removed_on_every_path [of env_ok fs0 chunk_956 "input_path_of hex0" "[]"]
          temporary_files_removed_on_every_path
            [of env_model_fails fs0 chunk_956 "temp_file_of hex0" "[]"]
          temporary_files_removed_on_every_path
            [of env_remove_fails fs0 chunk_956 "input_path_of hex0" "[]"]
          temporary_files_removed_on_every_path
            [of env_remove_fails fs0 chunk_956 "temp_file_of hex0" "[]"]
          during during_rf during_ws raised
    by (simp add: hex rf restored websocket_endpoint_parts)
qed

end
